theory Spec2Isabelle
  imports Main
begin

section \<open>Python strings and numbers\<close>

text \<open>
  The downloader of \<^verbatim>\<open>notebooks/amedas/download.py\<close> works on Python strings, dates,
  a directory tree and an HTTP client. Strings are lists of characters; a value that the
  station table may replace by Python's \<^verbatim>\<open>None\<close> is a \<open>string option\<close>.
  Characters stand for code points below 256, so \<open>isspace\<close> lists the code points below
  256 that \<^verbatim>\<open>str.strip\<close> removes, and \<open>py_int\<close> reads ASCII digits only.
\<close>

definition isspace :: "char \<Rightarrow> bool" where
  "isspace c \<longleftrightarrow>
     (of_char c :: nat) \<in> {9, 10, 11, 12, 13, 28, 29, 30, 31, 32, 133, 160}"

definition strip :: "string \<Rightarrow> string" where
  "strip s = rev (dropWhile isspace (rev (dropWhile isspace s)))"

text \<open>\<^verbatim>\<open>s.split(sep)\<close> with a one-character separator: never an empty list.\<close>

fun split :: "char \<Rightarrow> string \<Rightarrow> string list" where
  "split sep [] = [[]]"
| "split sep (c # cs) =
     (if c = sep then [] # split sep cs
      else (case split sep cs of [] \<Rightarrow> [[c]] | w # ws \<Rightarrow> (c # w) # ws))"

definition isdigit :: "char \<Rightarrow> bool" where
  "isdigit c \<longleftrightarrow> 48 \<le> (of_char c :: nat) \<and> (of_char c :: nat) \<le> 57"

definition digit_value :: "char \<Rightarrow> nat" where
  "digit_value c = of_char c - 48"

text \<open>
  \<^verbatim>\<open>int(s)\<close> in base ten: surrounding white space is dropped, one sign is allowed, the
  digits may be grouped by single underscores, and anything else raises ValueError
  (\<open>None\<close> here).
\<close>

fun parse_digits :: "nat \<Rightarrow> string \<Rightarrow> nat option" where
  "parse_digits acc [] = Some acc"
| "parse_digits acc (c # cs) =
     (if isdigit c then parse_digits (10 * acc + digit_value c) cs
      else if c = CHR ''_'' then
        (case cs of [] \<Rightarrow> None
         | d # ds \<Rightarrow> if isdigit d then parse_digits acc cs else None)
      else None)"

definition parse_nat :: "string \<Rightarrow> nat option" where
  "parse_nat s = (case s of [] \<Rightarrow> None
     | c # cs \<Rightarrow> if isdigit c then parse_digits 0 s else None)"

definition py_int :: "string \<Rightarrow> int option" where
  "py_int s = (case strip s of
       [] \<Rightarrow> None
     | c # cs \<Rightarrow>
         if c = CHR ''-'' then map_option (\<lambda>n. - int n) (parse_nat cs)
         else if c = CHR ''+'' then map_option int (parse_nat cs)
         else map_option int (parse_nat (c # cs)))"

text \<open>\<^verbatim>\<open>str(n)\<close> of a natural number, and zero padding to a width (\<^verbatim>\<open>{n:02}\<close>).\<close>

fun str_nat :: "nat \<Rightarrow> string" where
  "str_nat n =
     (if n < 10 then [''0123456789'' ! n]
      else str_nat (n div 10) @ [''0123456789'' ! (n mod 10)])"

declare str_nat.simps [simp del]

definition zero_pad :: "nat \<Rightarrow> nat \<Rightarrow> string" where
  "zero_pad width n = replicate (width - length (str_nat n)) (CHR ''0'') @ str_nat n"

text \<open>What an f-string prints for a value that may be \<^verbatim>\<open>None\<close>.\<close>

definition py_str :: "string option \<Rightarrow> string" where
  "py_str v = (case v of None \<Rightarrow> ''None'' | Some s \<Rightarrow> s)"

section \<open>Dates\<close>

text \<open>
  A \<^verbatim>\<open>datetime.date\<close> holds a year, a month and a day. The only date the code builds is
  the first day of the month of a date it was given, which is a date whenever the given
  one is, so the constructor has no failing branch here.
\<close>

record date =
  year :: nat
  month :: nat
  day :: nat

text \<open>\<^verbatim>\<open>{d:%Y_%m_%d}\<close>: four digits for the year, two for the month and the day.\<close>

definition format_Y_m_d :: "date \<Rightarrow> string" where
  "format_Y_m_d d =
     zero_pad 4 (year d) @ ''_'' @ zero_pad 2 (month d) @ ''_'' @ zero_pad 2 (day d)"

section \<open>Stations\<close>

datatype construction_error = ValueError | TypeError

text \<open>
  \<^verbatim>\<open>float\<close> is Python's; the model takes it as a parameter \<open>to_float\<close> that answers
  \<open>None\<close> where \<^verbatim>\<open>float\<close> raises ValueError. On \<^verbatim>\<open>None\<close> both \<^verbatim>\<open>float\<close> and
  \<^verbatim>\<open>int\<close> raise TypeError.
\<close>

definition py_float_arg ::
  "(string \<Rightarrow> 'f option) \<Rightarrow> string option \<Rightarrow> construction_error + 'f" where
  "py_float_arg to_float v =
     (case v of None \<Rightarrow> Inl TypeError
      | Some s \<Rightarrow> (case to_float s of None \<Rightarrow> Inl ValueError | Some x \<Rightarrow> Inr x))"

text \<open>
  \<^verbatim>\<open>AmedasNode\<close>. The block number of a constructed station is a string, since
  \<^verbatim>\<open>int(block_no)\<close> has accepted it; \<open>ident\<close> is the attribute \<^verbatim>\<open>id\<close>.
\<close>

record 'f AmedasNode =
  block_no :: string
  prec_no :: "string option"
  name :: "string option"
  ident :: "string option"
  area_code :: "string option"
  group_code :: "string option"
  height :: 'f
  url_part :: string

text \<open>\<^verbatim>\<open>AmedasNode.__init__\<close>: the height is converted first, then the block number.\<close>

definition AmedasNode_init ::
  "(string \<Rightarrow> 'f option) \<Rightarrow> string option \<Rightarrow> string option \<Rightarrow> string option \<Rightarrow>
   string option \<Rightarrow> string option \<Rightarrow> string option \<Rightarrow> string option \<Rightarrow>
   construction_error + 'f AmedasNode" where
  "AmedasNode_init to_float prec_no' block_no' name' id' area_code' group_code' height' =
     (case py_float_arg to_float height' of
        Inl e \<Rightarrow> Inl e
      | Inr h \<Rightarrow>
          (case block_no' of
             None \<Rightarrow> Inl TypeError
           | Some b \<Rightarrow>
               (case py_int b of
                  None \<Rightarrow> Inl ValueError
                | Some n \<Rightarrow>
                    Inr \<lparr>block_no = b, prec_no = prec_no', name = name',
                         ident = id', area_code = area_code',
                         group_code = group_code', height = h,
                         url_part = (if n < 10000 then ''a'' else ''s'')\<rparr>)))"

section \<open>The environment: directory tree, HTTP client, log\<close>

text \<open>
  A path is the list of its segments, \<^verbatim>\<open>Path()\<close> the empty list; every segment is taken
  as one plain name. The model's file system always carries out \<^verbatim>\<open>mkdir\<close> and a write
  (no permission or device error, no file in the place of a directory). The world also
  keeps the URLs of the GET requests sent so far and the records given to the logger.
\<close>

type_synonym path = "string list"

datatype level = INFO | WARNING | ERROR

record world =
  dirs :: "path set"
  files :: "path \<rightharpoonup> string"
  net_log :: "string list"
  logged :: "(level \<times> string) list"

text \<open>
  An exception raised inside \<^verbatim>\<open>requests.get\<close> or while reading \<^verbatim>\<open>response.text\<close>:
  the client refuses a URL without a scheme (as \<^verbatim>\<open>None\<close> is) before it sends anything;
  \<open>RequestFailure msg\<close> is any other exception, \<open>msg\<close> its \<^verbatim>\<open>str\<close>.
\<close>

datatype http_error = MissingSchema | RequestFailure string

definition str_error :: "http_error \<Rightarrow> string" where
  "str_error e =
     (case e of
        MissingSchema \<Rightarrow>
          ''Invalid URL '' @ [CHR 0x27] @ ''None'' @ [CHR 0x27] @
          '': No scheme supplied. Perhaps you meant https://None?''
      | RequestFailure msg \<Rightarrow> msg)"

text \<open>
  The remote service answers a URL, given the requests sent before, with the decoded body
  or with a failure of the transport or of the decoding.
\<close>

type_synonym remote = "string list \<Rightarrow> string \<Rightarrow> http_error + string"

definition requests_get ::
  "remote \<Rightarrow> string option \<Rightarrow> world \<Rightarrow> (http_error + string) \<times> world" where
  "requests_get service url w =
     (case url of
        None \<Rightarrow> (Inl MissingSchema, w)
      | Some u \<Rightarrow> (service (net_log w) u, w\<lparr>net_log := net_log w @ [u]\<rparr>))"

definition logger :: "level \<Rightarrow> string \<Rightarrow> world \<Rightarrow> world" where
  "logger lvl msg w = w\<lparr>logged := logged w @ [(lvl, msg)]\<rparr>"

fun join :: "string \<Rightarrow> string list \<Rightarrow> string" where
  "join sep [] = []"
| "join sep [x] = x"
| "join sep (x # y # ys) = x @ sep @ join sep (y # ys)"

definition str_path :: "path \<Rightarrow> string" where
  "str_path p = (if p = [] then ''.'' else join ''/'' p)"

text \<open>\<^verbatim>\<open>p.mkdir(parents=True, exist_ok=True)\<close>: the directory and every missing parent.\<close>

definition mkdir :: "path \<Rightarrow> world \<Rightarrow> world" where
  "mkdir p w = w\<lparr>dirs := dirs w \<union> set (map (\<lambda>k. take k p) [1..<Suc (length p)])\<rparr>"

text \<open>\<^verbatim>\<open>p.exists()\<close> holds of a file and of a directory.\<close>

definition exists_path :: "world \<Rightarrow> path \<Rightarrow> bool" where
  "exists_path w p \<longleftrightarrow> p \<in> dirs w \<or> files w p \<noteq> None"

definition write_file :: "path \<Rightarrow> string \<Rightarrow> world \<Rightarrow> world" where
  "write_file p text w = w\<lparr>files := (files w)(p \<mapsto> text)\<rparr>"

text \<open>\<^verbatim>\<open>create_dir\<close>: the loop over \<^verbatim>\<open>path_list\<close>, from the current directory.\<close>

fun create_dir_from :: "path \<Rightarrow> string list \<Rightarrow> world \<Rightarrow> path \<times> world" where
  "create_dir_from current_dir [] w = (current_dir, w)"
| "create_dir_from current_dir (directory # rest) w =
     create_dir_from (current_dir @ [directory]) rest
       (mkdir (current_dir @ [directory]) w)"

definition create_dir :: "string list \<Rightarrow> world \<Rightarrow> path \<times> world" where
  "create_dir path_list w = create_dir_from [] path_list w"

section \<open>Fetching and caching\<close>

text \<open>\<^verbatim>\<open>AmedasNode._construct_url\<close>; the warning goes to the log.\<close>

definition construct_url ::
  "'f AmedasNode \<Rightarrow> string \<Rightarrow> date \<Rightarrow> world \<Rightarrow> string option \<times> world" where
  "construct_url node data_type target_date w =
     (if data_type \<in> set [''10min'', ''hourly'', ''daily''] then
        (Some (''http://www.data.jma.go.jp/obd/stats/etrn/view/'' @ data_type @ ''_'' @
               url_part node @ ''1.php?'' @
               ''prec_no='' @ py_str (prec_no node) @ ''&block_no='' @ block_no node @
               ''&year='' @ str_nat (year target_date) @ ''&'' @
               ''month='' @ zero_pad 2 (month target_date) @
               ''&day='' @ zero_pad 2 (day target_date) @ ''&view=''), w)
      else if data_type = ''real-time'' then
        (Some (''http://www.jma.go.jp/jp/amedas_h/today-'' @ py_str (ident node) @
               ''.html''), w)
      else (None, logger WARNING (''Unknown data type: '' @ data_type) w))"

text \<open>\<^verbatim>\<open>AmedasNode._download_html\<close>: every exception of the request becomes \<^verbatim>\<open>None\<close>.\<close>

definition download_html :: "remote \<Rightarrow> string option \<Rightarrow> world \<Rightarrow> string option \<times> world" where
  "download_html service url w =
     (case requests_get service url w of
        (Inr text, w') \<Rightarrow> (Some text, w')
      | (Inl e, w') \<Rightarrow> (None, logger ERROR (''--download error-- '' @ str_error e) w'))"

text \<open>\<^verbatim>\<open>AmedasNode.get_data\<close>.\<close>

definition get_data ::
  "remote \<Rightarrow> 'f AmedasNode \<Rightarrow> string \<Rightarrow> date \<Rightarrow> world \<Rightarrow> string option \<times> world" where
  "get_data service node data_type target_date w =
     (case construct_url node data_type target_date w of
        (url, w') \<Rightarrow>
          download_html service url (logger INFO (''--target url-- '' @ py_str url) w'))"

text \<open>The pieces of \<^verbatim>\<open>AmedasNode.save\<close> that name the cache entry.\<close>

definition date_to_use :: "string \<Rightarrow> date \<Rightarrow> date" where
  "date_to_use data_type target_date =
     (if data_type = ''daily''
      then \<lparr>year = year target_date, month = month target_date, day = 1\<rparr>
      else target_date)"

definition dir_list :: "'f AmedasNode \<Rightarrow> string \<Rightarrow> date \<Rightarrow> string list" where
  "dir_list node data_type d =
     [''raw_html'', data_type, block_no node @ ''_'' @ py_str (name node),
      str_nat (year d)]"

definition file_name :: "'f AmedasNode \<Rightarrow> date \<Rightarrow> string" where
  "file_name node d =
     block_no node @ ''_'' @ py_str (name node) @ ''_'' @ format_Y_m_d d @ ''.html''"

text \<open>
  \<^verbatim>\<open>AmedasNode.save\<close>: the directories are made first, then the path is looked up; the
  body is written only when it is a non-empty string, and the answer is \<^verbatim>\<open>True\<close> on
  the whole fetching branch.
\<close>

definition save ::
  "remote \<Rightarrow> 'f AmedasNode \<Rightarrow> string \<Rightarrow> date \<Rightarrow> bool \<Rightarrow> world \<Rightarrow> bool \<times> world" where
  "save service node data_type target_date force w =
     (let d = date_to_use data_type target_date in
      case create_dir (dir_list node data_type d) w of
        (dir_path, w1) \<Rightarrow>
          (let file_path = dir_path @ [file_name node d] in
           if \<not> exists_path w1 file_path \<or> force then
             (case get_data service node data_type d w1 of
                (None, w2) \<Rightarrow> (True, w2)
              | (Some html, w2) \<Rightarrow>
                  if html \<noteq> [] then
                    (True, logger INFO (''Data saved to '' @ str_path file_path)
                             (write_file file_path html w2))
                  else (True, w2))
           else (False, logger INFO (str_path file_path @ '' already exists.'') w1)))"

text \<open>The path that \<^verbatim>\<open>save\<close> looks up and writes.\<close>

definition cache_path :: "'f AmedasNode \<Rightarrow> string \<Rightarrow> date \<Rightarrow> path" where
  "cache_path node data_type target_date =
     dir_list node data_type (date_to_use data_type target_date) @
     [file_name node (date_to_use data_type target_date)]"

section \<open>The station registry\<close>

text \<open>
  \<^verbatim>\<open>get_amedas_nodes\<close> reads the lines of the station table in order. \<open>fields_of\<close> is
  the list the loop body computes from a line; the unpacking takes the first three and the
  last four entries. A failing constructor ends the loading with its exception.
\<close>

definition fields_of :: "string \<Rightarrow> string option list" where
  "fields_of line =
     map (\<lambda>x. if x = ''None'' then None else Some x) (split (CHR 0x09) (strip line))"

definition node_of_fields ::
  "(string \<Rightarrow> 'f option) \<Rightarrow> string option list \<Rightarrow> construction_error + 'f AmedasNode" where
  "node_of_fields to_float row =
     (let n = length row in
      AmedasNode_init to_float (row ! 0) (row ! 1) (row ! 2)
        (row ! (n - 3)) (row ! (n - 2)) (row ! (n - 1)) (row ! (n - 4)))"

fun load_lines ::
  "(string \<Rightarrow> 'f option) \<Rightarrow> string list \<Rightarrow> (string \<rightharpoonup> 'f AmedasNode) \<Rightarrow>
   construction_error + (string \<rightharpoonup> 'f AmedasNode)" where
  "load_lines to_float [] amedas_nodes = Inr amedas_nodes"
| "load_lines to_float (line # rest) amedas_nodes =
     (if length (fields_of line) < 10 then load_lines to_float rest amedas_nodes
      else
        (case node_of_fields to_float (fields_of line) of
           Inl e \<Rightarrow> Inl e
         | Inr node \<Rightarrow>
             load_lines to_float rest (amedas_nodes(block_no node \<mapsto> node))))"

definition get_amedas_nodes ::
  "(string \<Rightarrow> 'f option) \<Rightarrow> string list \<Rightarrow>
   construction_error + (string \<rightharpoonup> 'f AmedasNode)" where
  "get_amedas_nodes to_float lines = load_lines to_float lines Map.empty"

section \<open>Derived notions\<close>

text \<open>
  The world after the \<^verbatim>\<open>create_dir\<close> call of \<^verbatim>\<open>save\<close>, the URL that
  \<^verbatim>\<open>_construct_url\<close> returns (it does not depend on the world), and the body that the
  fetch of \<^verbatim>\<open>save\<close> obtains, \<open>None\<close> when it obtains none.
\<close>

definition made_dirs :: "'f AmedasNode \<Rightarrow> string \<Rightarrow> date \<Rightarrow> world \<Rightarrow> world" where
  "made_dirs node data_type target_date w =
     snd (create_dir (dir_list node data_type (date_to_use data_type target_date)) w)"

definition request_url :: "'f AmedasNode \<Rightarrow> string \<Rightarrow> date \<Rightarrow> string option" where
  "request_url node data_type target_date =
     fst (construct_url node data_type target_date
            \<lparr>dirs = {}, files = Map.empty, net_log = [], logged = []\<rparr>)"

definition fetched ::
  "remote \<Rightarrow> 'f AmedasNode \<Rightarrow> string \<Rightarrow> date \<Rightarrow> world \<Rightarrow> string option" where
  "fetched service node data_type target_date w =
     fst (get_data service node data_type (date_to_use data_type target_date)
            (made_dirs node data_type target_date w))"

section \<open>Example data\<close>

text \<open>
  A stand-in for \<^verbatim>\<open>float\<close> that accepts plain decimal numerals, and a station of the
  table: block number 47401, so its URL token is \<open>s\<close>.
\<close>

definition to_float_example :: "string \<Rightarrow> string option" where
  "to_float_example s =
     (if s \<noteq> [] \<and> list_all (\<lambda>c. isdigit c \<or> c = CHR ''.'') s then Some s else None)"

definition wakkanai :: "string AmedasNode" where
  "wakkanai =
     \<lparr>block_no = ''47401'', prec_no = Some ''11'', name = Some ''Wakkanai'',
      ident = Some ''11016'', area_code = Some ''011000'', group_code = None,
      height = ''2.8'', url_part = ''s''\<rparr>"

section \<open>How \<^verbatim>\<open>save\<close> changes the world\<close>

lemma create_dir_four:
  "create_dir [a, b, c, d] w =
     ([a, b, c, d], w\<lparr>dirs := dirs w \<union> {[a], [a, b], [a, b, c], [a, b, c, d]}\<rparr>)"
proof -
  have "dirs w \<union> {[a]} \<union> {[a], [a, b]} \<union> {[a], [a, b], [a, b, c]} \<union>
          {[a], [a, b], [a, b, c], [a, b, c, d]} =
        dirs w \<union> {[a], [a, b], [a, b, c], [a, b, c, d]}"
    by auto
  then show ?thesis
    by (simp add: create_dir_def mkdir_def upt_rec Un_assoc)
qed

lemma exists_path_after_create_dir:
  "exists_path (w\<lparr>dirs := dirs w \<union> {[a], [a, b], [a, b, c], [a, b, c, d]}\<rparr>) [a, b, c, d, e]
     = exists_path w [a, b, c, d, e]"
  by (simp add: exists_path_def)

lemma made_dirs_eq:
  "made_dirs node dt td w =
     w\<lparr>dirs := dirs w \<union> set (map (\<lambda>k. take k (dir_list node dt (date_to_use dt td))) [1, 2, 3, 4])\<rparr>"
  by (auto simp add: made_dirs_def dir_list_def create_dir_four)

lemma made_dirs_sel [simp]:
  "files (made_dirs node dt td w) = files w"
  "net_log (made_dirs node dt td w) = net_log w"
  "logged (made_dirs node dt td w) = logged w"
  by (simp_all add: made_dirs_eq)

lemma exists_made_dirs [simp]:
  "exists_path (made_dirs node dt td w) (cache_path node dt td) = exists_path w (cache_path node dt td)"
  by (simp add: made_dirs_def dir_list_def create_dir_four cache_path_def exists_path_def)

lemma save_unfold:
  "save service node dt td force w =
     (if \<not> exists_path w (cache_path node dt td) \<or> force then
        (case get_data service node dt (date_to_use dt td) (made_dirs node dt td w) of
           (None, w2) \<Rightarrow> (True, w2)
         | (Some html, w2) \<Rightarrow>
             if html \<noteq> [] then
               (True, logger INFO (''Data saved to '' @ str_path (cache_path node dt td))
                        (write_file (cache_path node dt td) html w2))
             else (True, w2))
      else (False, logger INFO (str_path (cache_path node dt td) @ '' already exists.'')
                     (made_dirs node dt td w)))"
proof -
  have c: "create_dir (dir_list node dt (date_to_use dt td)) w =
      (dir_list node dt (date_to_use dt td), made_dirs node dt td w)"
    by (simp add: made_dirs_def dir_list_def create_dir_four)
  have e: "exists_path (made_dirs node dt td w) (cache_path node dt td) = exists_path w (cache_path node dt td)"
    by simp
  show ?thesis
    unfolding save_def Let_def c prod.case cache_path_def [symmetric] e ..
qed


lemma construct_url_fst: "fst (construct_url node dt d w) = request_url node dt d"
  by (simp add: construct_url_def request_url_def)

lemma construct_url_frame:
  "files (snd (construct_url node dt d w)) = files w"
  "dirs (snd (construct_url node dt d w)) = dirs w"
  "net_log (snd (construct_url node dt d w)) = net_log w"
  by (simp_all add: construct_url_def logger_def)

lemma download_html_fst:
  "fst (download_html service url w) =
     (case url of None \<Rightarrow> None
      | Some u \<Rightarrow> (case service (net_log w) u of Inl e \<Rightarrow> None | Inr text \<Rightarrow> Some text))"
  by (simp add: download_html_def requests_get_def split: option.splits sum.splits)

lemma download_html_frame:
  "files (snd (download_html service url w)) = files w"
  "dirs (snd (download_html service url w)) = dirs w"
  "net_log (snd (download_html service url w)) =
     net_log w @ (case url of None \<Rightarrow> [] | Some u \<Rightarrow> [u])"
  by (simp_all add: download_html_def requests_get_def logger_def
        split: option.splits sum.splits)

lemma get_data_fst:
  "fst (get_data service node dt d w) =
     (case request_url node dt d of None \<Rightarrow> None
      | Some u \<Rightarrow> (case service (net_log w) u of Inl e \<Rightarrow> None | Inr text \<Rightarrow> Some text))"
proof -
  obtain url w' where c: "construct_url node dt d w = (url, w')"
    by (cases "construct_url node dt d w")
  have "url = request_url node dt d" "net_log w' = net_log w"
    using construct_url_fst [of node dt d w] construct_url_frame(3) [of node dt d w] c
    by simp_all
  then show ?thesis
    by (simp add: get_data_def c download_html_fst logger_def split: option.splits)
qed

lemma get_data_frame:
  "files (snd (get_data service node dt d w)) = files w"
  "dirs (snd (get_data service node dt d w)) = dirs w"
  "net_log (snd (get_data service node dt d w)) =
     net_log w @ (case request_url node dt d of None \<Rightarrow> [] | Some u \<Rightarrow> [u])"
proof -
  obtain url w' where c: "construct_url node dt d w = (url, w')"
    by (cases "construct_url node dt d w")
  have u: "url = request_url node dt d"
    and f: "files w' = files w" "dirs w' = dirs w" "net_log w' = net_log w"
    using construct_url_fst [of node dt d w] construct_url_frame [of node dt d w] c
    by simp_all
  show "files (snd (get_data service node dt d w)) = files w"
    by (simp add: get_data_def c download_html_frame logger_def f)
  show "dirs (snd (get_data service node dt d w)) = dirs w"
    by (simp add: get_data_def c download_html_frame logger_def f)
  show "net_log (snd (get_data service node dt d w)) =
     net_log w @ (case request_url node dt d of None \<Rightarrow> [] | Some u \<Rightarrow> [u])"
    by (simp add: get_data_def c download_html_frame logger_def f u)
qed

lemma save_fst:
  "fst (save service node dt td force w) \<longleftrightarrow> \<not> exists_path w (cache_path node dt td) \<or> force"
  by (simp add: save_unfold split: prod.splits option.splits)

lemma save_net_log:
  "net_log (snd (save service node dt td force w)) =
     (if \<not> exists_path w (cache_path node dt td) \<or> force
      then net_log w @ (case request_url node dt (date_to_use dt td) of None \<Rightarrow> [] | Some u \<Rightarrow> [u])
      else net_log w)"
proof -
  obtain html w2 where g: "get_data service node dt (date_to_use dt td) (made_dirs node dt td w) = (html, w2)"
    by (cases "get_data service node dt (date_to_use dt td) (made_dirs node dt td w)")
  have "net_log w2 = net_log w @ (case request_url node dt (date_to_use dt td) of None \<Rightarrow> [] | Some u \<Rightarrow> [u])"
    using get_data_frame(3) [of service node dt "date_to_use dt td" "made_dirs node dt td w"] g by simp
  then show ?thesis
    by (simp add: save_unfold g logger_def write_file_def split: option.splits)
qed

lemma save_files:
  "files (snd (save service node dt td force w)) =
     (if \<not> exists_path w (cache_path node dt td) \<or> force
      then (case fetched service node dt td w of
              None \<Rightarrow> files w
            | Some html \<Rightarrow> if html \<noteq> [] then (files w)(cache_path node dt td \<mapsto> html) else files w)
      else files w)"
proof -
  obtain html w2 where g: "get_data service node dt (date_to_use dt td) (made_dirs node dt td w) = (html, w2)"
    by (cases "get_data service node dt (date_to_use dt td) (made_dirs node dt td w)")
  have "files w2 = files w"
    using get_data_frame(1) [of service node dt "date_to_use dt td" "made_dirs node dt td w"] g by simp
  then show ?thesis
    by (simp add: save_unfold g logger_def write_file_def fetched_def split: option.splits)
qed

lemma save_dirs:
  "dirs (snd (save service node dt td force w)) = dirs (made_dirs node dt td w)"
proof -
  obtain html w2 where g: "get_data service node dt (date_to_use dt td) (made_dirs node dt td w) = (html, w2)"
    by (cases "get_data service node dt (date_to_use dt td) (made_dirs node dt td w)")
  have "dirs w2 = dirs (made_dirs node dt td w)"
    using get_data_frame(2) [of service node dt "date_to_use dt td" "made_dirs node dt td w"] g by simp
  then show ?thesis
    by (simp add: save_unfold g logger_def write_file_def split: option.splits)
qed

lemma fetched_eq:
  "fetched service node dt td w =
     (case request_url node dt (date_to_use dt td) of None \<Rightarrow> None
      | Some u \<Rightarrow> (case service (net_log w) u of Inl e \<Rightarrow> None | Inr text \<Rightarrow> Some text))"
  by (simp add: fetched_def get_data_fst split: option.splits)

section \<open>Concrete strings and numbers\<close>

lemma py_int_10000: "py_int ''10000'' = Some 10000"
  by (simp add: py_int_def strip_def isspace_def parse_nat_def isdigit_def digit_value_def)
lemma py_int_9999: "py_int ''9999'' = Some 9999"
  by (simp add: py_int_def strip_def isspace_def parse_nat_def isdigit_def digit_value_def)
lemma py_int_47401: "py_int ''47401'' = Some 47401"
  by (simp add: py_int_def strip_def isspace_def parse_nat_def isdigit_def digit_value_def)
lemma str_nat_2016: "str_nat 2016 = ''2016''"
  by (simp add: str_nat.simps [of 2016] str_nat.simps [of 201] str_nat.simps [of 20] str_nat.simps [of 2])
lemma str_nat_digit: "n < 10 \<Longrightarrow> str_nat n = [''0123456789'' ! n]"
  by (simp add: str_nat.simps [of n])
lemma zero_pad_2016: "zero_pad 4 2016 = ''2016''"
  by (simp add: zero_pad_def str_nat_2016)
lemma zero_pad_1: "zero_pad 2 1 = ''01''"
  by (simp add: zero_pad_def str_nat_digit)
lemma zero_pad_4: "zero_pad 2 4 = ''04''"
  by (simp add: zero_pad_def str_nat_digit)
lemma zero_pad_5: "zero_pad 2 5 = ''05''"
  by (simp add: zero_pad_def str_nat_digit)
lemma zero_pad_12: "zero_pad 2 12 = ''12''"
  by (simp add: zero_pad_def str_nat.simps [of 12] str_nat_digit)


section \<open>Stations and their URL token\<close>

lemma AmedasNode_init_Inr:
  assumes "AmedasNode_init to_float p b n i a g h = Inr node"
  shows "\<exists>s v x. b = Some s \<and> py_int s = Some v \<and>
    node = \<lparr>block_no = s, prec_no = p, name = n, ident = i, area_code = a,
             group_code = g, height = x, url_part = (if v < 10000 then ''a'' else ''s'')\<rparr>"
proof (cases "py_float_arg to_float h")
  case (Inl e)
  then show ?thesis using assms by (simp add: AmedasNode_init_def)
next
  case (Inr x)
  show ?thesis
  proof (cases b)
    case None
    then show ?thesis using assms Inr by (simp add: AmedasNode_init_def)
  next
    case s: (Some s)
    show ?thesis
    proof (cases "py_int s")
      case None
      then show ?thesis using assms Inr s by (simp add: AmedasNode_init_def)
    next
      case (Some v)
      have node: "node = \<lparr>block_no = s, prec_no = p, name = n, ident = i, area_code = a,
             group_code = g, height = x, url_part = (if v < 10000 then ''a'' else ''s'')\<rparr>"
        using assms by (simp add: AmedasNode_init_def Inr s Some del: if_split)
      show ?thesis
        by (rule exI [of _ s], rule exI [of _ v], rule exI [of _ x])
          (rule conjI [OF s conjI [OF Some node]])
    qed
  qed
qed

lemma init_wakkanai:
  "AmedasNode_init to_float_example (Some ''11'') (Some ''47401'') (Some ''Wakkanai'')
       (Some ''11016'') (Some ''011000'') None (Some ''2.8'') = Inr wakkanai"
  by (simp add: AmedasNode_init_def py_float_arg_def to_float_example_def isdigit_def
        py_int_47401 wakkanai_def)

text \<open>
  Claim C5. Whenever the constructor returns a station, its block code is a string that
  \<^verbatim>\<open>int\<close> reads as a number \<open>v\<close>, and \<open>url_part\<close> is \<open>a\<close> exactly when \<open>v < 10000\<close>
  and \<open>s\<close> exactly when \<open>10000 \<le> v\<close>; the block code 10000 itself gives \<open>s\<close>, and
  9999 gives \<open>a\<close>.
\<close>

theorem url_part_threshold:
  assumes "AmedasNode_init to_float p b n i a g h = Inr node"
  shows "(\<exists>s v. b = Some s \<and> py_int s = Some v \<and>
            (url_part node = ''a'' \<longleftrightarrow> v < 10000) \<and>
            (url_part node = ''s'' \<longleftrightarrow> 10000 \<le> v)) \<and>
         (b = Some ''10000'' \<longrightarrow> url_part node = ''s'') \<and>
         (b = Some ''9999'' \<longrightarrow> url_part node = ''a'')"
proof -
  from AmedasNode_init_Inr [OF assms] obtain s v x where b: "b = Some s"
    and v: "py_int s = Some v"
    and node: "node = \<lparr>block_no = s, prec_no = p, name = n, ident = i, area_code = a,
             group_code = g, height = x, url_part = (if v < 10000 then ''a'' else ''s'')\<rparr>"
    by blast
  have u: "url_part node = (if v < 10000 then ''a'' else ''s'')"
    by (simp add: node)
  have t: "(url_part node = ''a'' \<longleftrightarrow> v < 10000) \<and> (url_part node = ''s'' \<longleftrightarrow> 10000 \<le> v)"
    by (simp add: u)
  have "\<exists>s v. b = Some s \<and> py_int s = Some v \<and>
            (url_part node = ''a'' \<longleftrightarrow> v < 10000) \<and>
            (url_part node = ''s'' \<longleftrightarrow> 10000 \<le> v)"
    by (rule exI [of _ s], rule exI [of _ v]) (simp only: b v t simp_thms)
  moreover have "b = Some ''10000'' \<longrightarrow> url_part node = ''s''"
  proof
    assume "b = Some ''10000''"
    then have "v = 10000" using b v py_int_10000 by simp
    then show "url_part node = ''s''" by (simp add: u)
  qed
  moreover have "b = Some ''9999'' \<longrightarrow> url_part node = ''a''"
  proof
    assume "b = Some ''9999''"
    then have "v = 9999" using b v py_int_9999 by simp
    then show "url_part node = ''a''" by (simp add: u)
  qed
  ultimately show ?thesis by (intro conjI)
qed

theorem url_part_threshold_witness:
  "AmedasNode_init to_float_example (Some ''11'') (Some ''47401'') (Some ''Wakkanai'')
       (Some ''11016'') (Some ''011000'') None (Some ''2.8'') = Inr wakkanai \<and>
   py_int ''47401'' = Some 47401 \<and> url_part wakkanai = ''s''"
proof -
  have "\<exists>s v. Some ''47401'' = Some s \<and> py_int s = Some v \<and>
            (url_part wakkanai = ''a'' \<longleftrightarrow> v < 10000) \<and>
            (url_part wakkanai = ''s'' \<longleftrightarrow> 10000 \<le> v)"
    using url_part_threshold [OF init_wakkanai] by (rule conjunct1)
  then have "url_part wakkanai = ''s''"
    using py_int_47401 by auto
  then show ?thesis
    using init_wakkanai py_int_47401 by (intro conjI)
qed

end
